theory Spec2Isabelle
  imports
    Complex_Main
    "HOL-Library.AList"
    "HOL-Library.Char_ord"
    "HOL-Library.List_Lexorder"
    "HOL-Library.Multiset"
begin

section \<open>Values and objects\<close>

text \<open>
  A JavaScript value as a validation rule receives it. The web framework hands path and
  query values over as text; the validation library reads text as a number under a number
  rule and as a boolean under a boolean rule. That reading belongs to the library and is
  done in floating point, so a request value stands here as what the library made of it:
  \<^item> \<open>JNumber q\<close>: a number; under a number rule, numeric text that the library
    converts to the number \<open>q\<close> without loss of information (\<^verbatim>\<open>-5\<close>,
    \<^verbatim>\<open>1.5\<close>);
  \<^item> \<open>JUnsafe t\<close>: under a number rule, numeric text \<open>t\<close> that does not
    survive the conversion to a JavaScript number and back
    (\<^verbatim>\<open>1.00000000000000001\<close>), which the library refuses as \<^verbatim>\<open>number.unsafe\<close>;
  \<^item> \<open>JBoolean b\<close>: a boolean; under a boolean rule, text read as one;
  \<^item> \<open>JString t\<close>: any other text, and every text under a string rule.
\<close>

datatype jsval = JString string | JNumber rat | JUnsafe string | JBoolean bool

fun lossy :: "jsval \<Rightarrow> bool" where
  "lossy (JUnsafe t) = True"
| "lossy (JString t) = False"
| "lossy (JNumber q) = False"
| "lossy (JBoolean b) = False"

text \<open>
  An object is an association list in insertion order, one entry per key; should a list
  repeat a key, a lookup takes its first entry. Only own properties are modelled.
\<close>

type_synonym 'v obj = "(string \<times> 'v) list"

subsection \<open>The underscore helpers used by the routes\<close>

text \<open>\<^verbatim>\<open>_.keys(obj)\<close>: the own keys in insertion order.\<close>

definition keys :: "'v obj \<Rightarrow> string list" where
  "keys obj = map fst obj"

text \<open>
  \<^verbatim>\<open>_.pick(obj, keys)\<close>: runs over \<open>keys\<close> and copies each key that
  \<open>obj\<close> has into a fresh object (\<^verbatim>\<open>result[key] = obj[key]\<close>).
\<close>

definition pick :: "'v obj \<Rightarrow> string list \<Rightarrow> 'v obj" where
  "pick obj ks =
     fold (\<lambda>key result. case map_of obj key of
                           None \<Rightarrow> result
                         | Some v \<Rightarrow> AList.update key v result) ks []"

text \<open>
  \<^verbatim>\<open>_.omit(obj, keys)\<close>: runs over the keys of \<open>obj\<close> and keeps those not
  contained in \<open>keys\<close>.
\<close>

definition omit :: "'v obj \<Rightarrow> string list \<Rightarrow> 'v obj" where
  "omit obj ks = filter (\<lambda>(key, v). key \<notin> set ks) obj"

text \<open>Truthiness of an optional string: \<^verbatim>\<open>undefined\<close> and \<^verbatim>\<open>''\<close> are falsy.\<close>

definition truthy :: "string option \<Rightarrow> bool" where
  "truthy t = (case t of None \<Rightarrow> False | Some s \<Rightarrow> s \<noteq> [])"

section \<open>The validation rules (Joi)\<close>

text \<open>
  A rule as the chained builder calls of \<^verbatim>\<open>route.js\<close> leave it: the base type, the
  values listed by \<^verbatim>\<open>allow\<close> and \<^verbatim>\<open>valid\<close>, the \<^verbatim>\<open>only\<close> flag that
  \<^verbatim>\<open>valid\<close> sets, the number rules in the order they were chained, the default and
  the description.

  The library's documented behaviour, as far as the routes use it:
  \<^item> a listed value is accepted before any other check; \<^verbatim>\<open>allow\<close> lists values
    \<^emph>\<open>in addition\<close> to whatever the base type accepts, \<^verbatim>\<open>valid\<close> lists them and
    makes the list exclusive;
  \<^item> \<^verbatim>\<open>Joi.string()\<close> accepts every string but the empty one;
  \<^item> \<^verbatim>\<open>Joi.number()\<close> first converts text; text that is numeric but does not
    convert without loss fails with \<^verbatim>\<open>number.unsafe\<close> before any other check. It
    accepts every number within the safe integer range of JavaScript, fails one outside
    of it with \<^verbatim>\<open>number.unsafe\<close> too, and fails anything that is not a number with
    \<^verbatim>\<open>number.base\<close>; \<^verbatim>\<open>integer\<close>, \<^verbatim>\<open>min\<close> and \<^verbatim>\<open>max\<close> narrow it;
  \<^item> \<^verbatim>\<open>Joi.boolean()\<close> accepts booleans;
  \<^item> every key is optional unless required; a missing key takes the default, if any;
  \<^item> \<^verbatim>\<open>Joi.object(keys)\<close> rejects a key that \<open>keys\<close> does not list.
\<close>

datatype base = String_base | Number_base | Boolean_base

datatype rule = Integer_rule | Min_rule rat | Max_rule rat

record joi =
  base :: base
  valids :: "jsval list"
  only :: bool
  rules :: "rule list"
  default_flag :: "jsval option"
  description_flag :: string

datatype verror =
    Any_only | String_base_error | String_empty | Number_base_error | Number_unsafe
  | Number_integer | Number_min | Number_max | Boolean_base_error | Object_unknown

definition Joi_any :: "base \<Rightarrow> joi" where
  "Joi_any b = \<lparr>base = b, valids = [], only = False, rules = [],
                default_flag = None, description_flag = []\<rparr>"

definition Joi_string :: joi where
  "Joi_string = Joi_any String_base"

definition Joi_number :: joi where
  "Joi_number = Joi_any Number_base"

definition Joi_boolean :: joi where
  "Joi_boolean = Joi_any Boolean_base"

definition allow :: "jsval list \<Rightarrow> joi \<Rightarrow> joi" where
  "allow vs s = s\<lparr>valids := valids s @ vs\<rparr>"

text \<open>
  \<^verbatim>\<open>valid\<close> is \<^verbatim>\<open>allow\<close> followed by setting \<^verbatim>\<open>only\<close> when the rule
  has a list of values; called without values on a rule that has none, it leaves the
  rule as it was.
\<close>

definition valid :: "jsval list \<Rightarrow> joi \<Rightarrow> joi" where
  "valid vs s = (let obj = allow vs s in obj\<lparr>only := (valids obj \<noteq> [])\<rparr>)"

definition integer :: "joi \<Rightarrow> joi" where
  "integer s = s\<lparr>rules := rules s @ [Integer_rule]\<rparr>"

definition min_limit :: "rat \<Rightarrow> joi \<Rightarrow> joi" where
  "min_limit n s = s\<lparr>rules := rules s @ [Min_rule n]\<rparr>"

definition max_limit :: "rat \<Rightarrow> joi \<Rightarrow> joi" where
  "max_limit n s = s\<lparr>rules := rules s @ [Max_rule n]\<rparr>"

definition optional :: "joi \<Rightarrow> joi" where
  "optional s = s"

definition default_value :: "jsval \<Rightarrow> joi \<Rightarrow> joi" where
  "default_value v s = s\<lparr>default_flag := Some v\<rparr>"

definition description :: "string \<Rightarrow> joi \<Rightarrow> joi" where
  "description d s = s\<lparr>description_flag := d\<rparr>"

definition MAX_SAFE_INTEGER :: rat where
  "MAX_SAFE_INTEGER = 9007199254740991"

fun check_rule :: "rule \<Rightarrow> rat \<Rightarrow> verror option" where
  "check_rule Integer_rule q = (if of_int \<lfloor>q\<rfloor> = q then None else Some Number_integer)"
| "check_rule (Min_rule n) q = (if q < n then Some Number_min else None)"
| "check_rule (Max_rule n) q = (if n < q then Some Number_max else None)"

fun check_rules :: "rule list \<Rightarrow> rat \<Rightarrow> verror option" where
  "check_rules [] q = None"
| "check_rules (r # rs) q =
     (case check_rule r q of Some e \<Rightarrow> Some e | None \<Rightarrow> check_rules rs q)"

text \<open>Validation of a value that is present.\<close>

definition validate_value :: "joi \<Rightarrow> jsval \<Rightarrow> verror + jsval" where
  "validate_value s v =
     (if base s = Number_base \<and> lossy v then Inl Number_unsafe
      else if v \<in> set (valids s) then Inr v
      else if only s then Inl Any_only
      else case base s of
        String_base \<Rightarrow>
          (case v of
             JString t \<Rightarrow> if t = [] then Inl String_empty else Inr v
           | _ \<Rightarrow> Inl String_base_error)
      | Number_base \<Rightarrow>
          (case v of
             JNumber q \<Rightarrow>
               if MAX_SAFE_INTEGER < \<bar>q\<bar> then Inl Number_unsafe
               else (case check_rules (rules s) q of Some e \<Rightarrow> Inl e | None \<Rightarrow> Inr v)
           | _ \<Rightarrow> Inl Number_base_error)
      | Boolean_base \<Rightarrow>
          (case v of
             JBoolean b \<Rightarrow> Inr v
           | _ \<Rightarrow> Inl Boolean_base_error))"

text \<open>Validation of a key that may be missing (\<^verbatim>\<open>undefined\<close>).\<close>

definition validate_key :: "joi \<Rightarrow> jsval option \<Rightarrow> verror + jsval option" where
  "validate_key s v =
     (case v of
        None \<Rightarrow> Inr (default_flag s)
      | Some x \<Rightarrow> (case validate_value s x of Inl e \<Rightarrow> Inl e | Inr y \<Rightarrow> Inr (Some y)))"

text \<open>
  \<^verbatim>\<open>Joi.object(keys)\<close> on an object of values: the listed keys in their order, the
  first failure reported with its key; then any key that is not listed fails. The result
  holds the validated values, defaults filled in.
\<close>

fun validate_keys :: "joi obj \<Rightarrow> jsval obj \<Rightarrow> (string \<times> verror) + jsval obj" where
  "validate_keys [] value = Inr []"
| "validate_keys ((k, s) # schema) value =
     (case validate_key s (map_of value k) of
        Inl e \<Rightarrow> Inl (k, e)
      | Inr r \<Rightarrow>
          (case validate_keys schema value of
             Inl e \<Rightarrow> Inl e
           | Inr rest \<Rightarrow> Inr (case r of None \<Rightarrow> rest | Some v \<Rightarrow> (k, v) # rest)))"

definition Joi_object :: "joi obj \<Rightarrow> jsval obj \<Rightarrow> (string \<times> verror) + jsval obj" where
  "Joi_object schema value =
     (case validate_keys schema value of
        Inl e \<Rightarrow> Inl e
      | Inr r \<Rightarrow>
          (case filter (\<lambda>k. k \<notin> set (keys schema)) (keys value) of
             [] \<Rightarrow> Inr r
           | k # _ \<Rightarrow> Inl (k, Object_unknown)))"

section \<open>The configuration\<close>

text \<open>
  \<^verbatim>\<open>lib/config.js\<close> is read through four calls only: \<^verbatim>\<open>config.region()\<close>, an
  object from region slug to region entry; \<^verbatim>\<open>config.calendar()\<close>, the list of
  calendar route entries; \<^verbatim>\<open>config.parameter(types)\<close>, the object from parameter
  name to rule, called with no argument or with a region's types; and
  \<^verbatim>\<open>config.types()\<close>. The routes are generated from whatever these return, so the
  configuration is a parameter of everything below.
\<close>

record regionEntry =
  route :: string
  types :: "string list"
  omitParams :: "string list"

record routeEntry =
  entry_type :: "string option"
  entry_description :: string
  entry_notes :: string
  params :: "string list"

record config =
  config_region :: "regionEntry obj"
  config_calendar :: "routeEntry list"
  config_parameter :: "string list option \<Rightarrow> joi obj"
  config_types :: "string list"

section \<open>The routes\<close>

text \<open>
  The handler bound to a route. \<^verbatim>\<open>station.handler()\<close> and
  \<^verbatim>\<open>calendar.handler(type, region)\<close> live in other modules and are kept as tags
  with their arguments; the two parameter handlers are closures of \<^verbatim>\<open>route.js\<close>
  over the values they capture.
\<close>

datatype handler =
    station_handler
  | calendar_handler "string option" "string option"
  | parameter_regions_handler "string list"
  | parameter_types_handler "regionEntry obj" "string list"

text \<open>
  The options object handed to \<^verbatim>\<open>server.route\<close>. The response models under
  \<^verbatim>\<open>plugins\<close> only feed the generated documentation and are left out.
\<close>

record route_options =
  route_method :: string
  path :: string
  description_opt :: string
  notes_opt :: string
  tags :: "string list"
  validate_params :: "joi obj option"
  validate_query :: "joi obj option"
  handler :: handler

text \<open>The server's route table: the options of every \<^verbatim>\<open>server.route\<close> call, in order.\<close>

type_synonym server = "route_options list"

definition server_route :: "route_options \<Rightarrow> server \<Rightarrow> server" where
  "server_route r server = server @ [r]"

subsection \<open>addStationRoutes\<close>

definition station_format :: joi where
  "station_format =
     default_value (JString ''.json'')
       (description ''The format in which the ressource should be returned, only `json` is supported''
         (allow [JString '''', JString ''.json''] Joi_string))"

definition station_query :: "string list \<Rightarrow> joi obj" where
  "station_query regions =
     [(''region'', description ''The region of the station''
         (valid (map JString regions) Joi_string)),
      (''zip'', description ''The zip code of the station (not all regions provide zip codes)''
         (max_limit 9999 (min_limit 1000 (integer Joi_number)))),
      (''name'', description ''Case insensitive search for the station name, supports regex''
         Joi_string),
      (''glass'', description ''Whether the station provides glass container or not''
         Joi_boolean),
      (''oil'', description ''Whether the station provides an oil container or not''
         Joi_boolean),
      (''metal'', description ''Whether the station provides a metal container or not''
         Joi_boolean),
      (''textile'', description ''Whether the station provides a textile container or not''
         Joi_boolean),
      (''sort'', description ''Sort order for result, e.g. `zip` or `name:desc`. Multiple values can be comma-separated.''
         (optional Joi_string)),
      (''offset'', default_value (JNumber 0)
         (description ''Offset from all results, together with `limit` this can be used for pagination.''
           (optional Joi_number))),
      (''limit'', default_value (JNumber 500)
         (description ''Limit the amount of returned records.''
           (optional Joi_number)))]"

definition station_route :: "string list \<Rightarrow> route_options" where
  "station_route regions =
     \<lparr>route_method = ''GET'',
      path = ''/api/stations{format?}'',
      description_opt = ''Get stations'',
      notes_opt = ''Return all waste collection stations (Sammelstellen)'',
      tags = [''api'', ''station''],
      validate_params = Some [(''format'', station_format)],
      validate_query = Some (station_query regions),
      handler = station_handler\<rparr>"

definition addStationRoutes :: "config \<Rightarrow> server \<Rightarrow> server" where
  "addStationRoutes cfg server =
     (let regions = sort (keys (config_region cfg))
      in server_route (station_route regions) server)"

subsection \<open>addCalendarRoutes\<close>

definition calendar_format :: joi where
  "calendar_format =
     default_value (JString ''.json'')
       (description ''The format of the returned ressource, either `json` or `ics`''
         (allow [JString '''', JString ''.ics'', JString ''.json''] Joi_string))"

text \<open>\<^verbatim>\<open>(routeEntry.type ? '/' + routeEntry.type : '')\<close>\<close>

definition type_segment :: "string option \<Rightarrow> string" where
  "type_segment t = (if truthy t then ''/'' @ the t else '''')"

definition calendar_route :: "joi obj \<Rightarrow> routeEntry \<Rightarrow> route_options" where
  "calendar_route parameters routeEntry =
     \<lparr>route_method = ''GET'',
      path = ''/api/calendar'' @ type_segment (entry_type routeEntry) @ ''{format?}'',
      description_opt = entry_description routeEntry,
      notes_opt = entry_notes routeEntry,
      tags = [''api'', ''calendar''],
      validate_params = Some [(''format'', calendar_format)],
      validate_query = Some (pick parameters (params routeEntry)),
      handler = calendar_handler (entry_type routeEntry) None\<rparr>"

definition addCalendarRoutes :: "config \<Rightarrow> server \<Rightarrow> server" where
  "addCalendarRoutes cfg server =
     (let parameters = config_parameter cfg None
      in fold (\<lambda>routeEntry. server_route (calendar_route parameters routeEntry))
           (config_calendar cfg) server)"

subsection \<open>addRegionRoutes\<close>

definition region_route :: "joi obj \<Rightarrow> regionEntry \<Rightarrow> routeEntry \<Rightarrow> route_options" where
  "region_route parameters regionEntry routeEntry =
     \<lparr>route_method = ''GET'',
      path = ''/api/region/'' @ route regionEntry @ ''/calendar''
               @ type_segment (entry_type routeEntry) @ ''{format?}'',
      description_opt = entry_description routeEntry,
      notes_opt = entry_notes routeEntry,
      tags = [''api'', ''region-'' @ route regionEntry],
      validate_params = Some [(''format'', calendar_format)],
      validate_query = Some (pick parameters (params routeEntry)),
      handler = calendar_handler (entry_type routeEntry) (Some (route regionEntry))\<rparr>"

text \<open>
  The guard of the inner loop:
  \<^verbatim>\<open>routeEntry.type && !regionEntry.types.includes(routeEntry.type)\<close> skips the pair.
\<close>

definition skipped :: "regionEntry \<Rightarrow> routeEntry \<Rightarrow> bool" where
  "skipped regionEntry routeEntry =
     (truthy (entry_type routeEntry) \<and> the (entry_type routeEntry) \<notin> set (types regionEntry))"

definition region_step :: "joi obj \<Rightarrow> regionEntry \<Rightarrow> routeEntry \<Rightarrow> server \<Rightarrow> server" where
  "region_step parameters regionEntry routeEntry server =
     (if skipped regionEntry routeEntry then server
      else server_route (region_route parameters regionEntry routeEntry) server)"

definition region_params :: "config \<Rightarrow> regionEntry \<Rightarrow> joi obj" where
  "region_params cfg regionEntry =
     omit (config_parameter cfg (Some (types regionEntry))) (omitParams regionEntry)"

definition addRegionRoutes :: "config \<Rightarrow> server \<Rightarrow> server" where
  "addRegionRoutes cfg server =
     fold (\<lambda>regionEntry server'.
             let parameters = region_params cfg regionEntry
             in fold (region_step parameters regionEntry) (config_calendar cfg) server')
       (map snd (config_region cfg)) server"

subsection \<open>addParamRoutes\<close>

record metadata =
  total_count :: nat
  row_count :: nat

record 'a response =
  metadata :: metadata
  result :: "'a list"

datatype js_error = TypeError

definition regions_result :: "string list \<Rightarrow> string response" where
  "regions_result regionList =
     \<lparr>metadata = \<lparr>total_count = length regionList, row_count = length regionList\<rparr>,
      result = regionList\<rparr>"

text \<open>
  The handler of \<^verbatim>\<open>/api/parameter/types\<close>. \<open>region\<close> is
  \<^verbatim>\<open>request.query.region\<close>, a string or \<^verbatim>\<open>undefined\<close>. Reading
  \<^verbatim>\<open>regions[region]['types']\<close> for a key that \<open>regions\<close> does not have throws a
  TypeError.
\<close>

definition types_result ::
  "regionEntry obj \<Rightarrow> string list \<Rightarrow> string option \<Rightarrow> js_error + string response" where
  "types_result regions allTypes region =
     (case (if truthy region
            then (case map_of regions (the region) of
                    None \<Rightarrow> Inl TypeError
                  | Some regionEntry \<Rightarrow> Inr (types regionEntry))
            else Inr allTypes) of
        Inl e \<Rightarrow> Inl e
      | Inr docs \<Rightarrow>
          Inr \<lparr>metadata = \<lparr>total_count = length docs, row_count = length docs\<rparr>,
               result = docs\<rparr>)"

definition parameter_regions_route :: "string list \<Rightarrow> route_options" where
  "parameter_regions_route regionList =
     \<lparr>route_method = ''GET'',
      path = ''/api/parameter/regions'',
      description_opt = ''Values for the `region` parameter'',
      notes_opt = ''Returns a list of string values for the `region` parameter of the calendar endpoint.'',
      tags = [''api'', ''parameter''],
      validate_params = None,
      validate_query = None,
      handler = parameter_regions_handler regionList\<rparr>"

definition parameter_types_route ::
  "joi obj \<Rightarrow> regionEntry obj \<Rightarrow> string list \<Rightarrow> route_options" where
  "parameter_types_route parameters regions allTypes =
     \<lparr>route_method = ''GET'',
      path = ''/api/parameter/types'',
      description_opt = ''Values for the `types` parameter'',
      notes_opt = ''Returns a list of string values for the `types` parameter (by region if the `region` query parameter is given).'',
      tags = [''api'', ''parameter''],
      validate_params = None,
      validate_query = Some (pick parameters [''region'']),
      handler = parameter_types_handler regions allTypes\<rparr>"

definition addParamRoutes :: "config \<Rightarrow> server \<Rightarrow> server" where
  "addParamRoutes cfg server =
     (let parameters = config_parameter cfg None;
          regions = config_region cfg;
          regionList = sort (keys regions);
          server1 = server_route (parameter_regions_route regionList) server;
          allTypes = config_types cfg
      in server_route (parameter_types_route parameters regions allTypes) server1)"

text \<open>
  What a handler defined in \<^verbatim>\<open>route.js\<close> returns for a request whose
  \<^verbatim>\<open>request.query.region\<close> is \<open>region\<close>. The handlers of the other modules
  are not defined here.
\<close>

fun parameter_reply :: "handler \<Rightarrow> string option \<Rightarrow> (js_error + string response) option" where
  "parameter_reply (parameter_regions_handler regionList) region =
     Some (Inr (regions_result regionList))"
| "parameter_reply (parameter_types_handler regions allTypes) region =
     Some (types_result regions allTypes region)"
| "parameter_reply station_handler region = None"
| "parameter_reply (calendar_handler t r) region = None"

subsection \<open>Requests\<close>

text \<open>
  The framework validates the path parameters, then the query, and calls the handler only
  when both pass; a route without a rule for one of them takes it as it comes. A failure
  is answered with an error response and the handler never runs.
\<close>

definition validate_part :: "joi obj option \<Rightarrow> jsval obj \<Rightarrow> (string \<times> verror) + jsval obj" where
  "validate_part schema value =
     (case schema of None \<Rightarrow> Inr value | Some ks \<Rightarrow> Joi_object ks value)"

definition validate_request ::
  "route_options \<Rightarrow> jsval obj \<Rightarrow> jsval obj \<Rightarrow> (string \<times> verror) + (jsval obj \<times> jsval obj)" where
  "validate_request r request_params request_query =
     (case validate_part (validate_params r) request_params of
        Inl e \<Rightarrow> Inl e
      | Inr p \<Rightarrow>
          (case validate_part (validate_query r) request_query of
             Inl e \<Rightarrow> Inl e
           | Inr q \<Rightarrow> Inr (p, q)))"

definition respond ::
  "(handler \<Rightarrow> jsval obj \<Rightarrow> jsval obj \<Rightarrow> 'a) \<Rightarrow> route_options \<Rightarrow> jsval obj \<Rightarrow> jsval obj
     \<Rightarrow> (string \<times> verror) + 'a" where
  "respond run r request_params request_query =
     (case validate_request r request_params request_query of
        Inl e \<Rightarrow> Inl e
      | Inr (p, q) \<Rightarrow> Inr (run (handler r) p q))"

section \<open>The import job\<close>

text \<open>
  \<^verbatim>\<open>loadData.js\<close> talks to two collections of the database, \<^verbatim>\<open>db.station\<close> and
  \<^verbatim>\<open>db.calendar\<close>. The database is modelled by the commands the job issues, in the
  order it issues them, and by what these commands do to the stored documents.
\<close>

datatype collection = station | calendar

datatype format = stationEntry | calendarEntry

type_synonym doc = "jsval obj"

datatype command = Remove collection | Insert collection doc

type_synonym db = "command list"

text \<open>
  The stored documents of each collection. \<^verbatim>\<open>remove()\<close> without a query deletes every
  document of the collection (``remove previous entries''); \<^verbatim>\<open>insert(obj)\<close> appends.
\<close>

record store =
  station_docs :: "doc list"
  calendar_docs :: "doc list"

fun execute :: "command \<Rightarrow> store \<Rightarrow> store" where
  "execute (Remove station) s = s\<lparr>station_docs := []\<rparr>"
| "execute (Remove calendar) s = s\<lparr>calendar_docs := []\<rparr>"
| "execute (Insert station obj) s = s\<lparr>station_docs := station_docs s @ [obj]\<rparr>"
| "execute (Insert calendar obj) s = s\<lparr>calendar_docs := calendar_docs s @ [obj]\<rparr>"

definition execute_all :: "db \<Rightarrow> store \<Rightarrow> store" where
  "execute_all cmds s = fold execute cmds s"

text \<open>The documents a list of commands inserts into a collection, in order.\<close>

definition inserted :: "collection \<Rightarrow> db \<Rightarrow> doc list" where
  "inserted coll cmds =
     concat (map (\<lambda>cmd. case cmd of
                           Insert c obj \<Rightarrow> if c = coll then [obj] else []
                         | Remove c \<Rightarrow> []) cmds)"

fun is_insert :: "command \<Rightarrow> bool" where
  "is_insert (Insert c obj) = True"
| "is_insert (Remove c) = False"

record csv =
  csv_path :: string
  csv_format :: format
  csv_delimiter :: string
  csv_collection :: collection
  csv_type :: string

text \<open>
  \<^verbatim>\<open>importCsv\<close>: \<^verbatim>\<open>csv.convertToJson\<close> (of \<^verbatim>\<open>lib/csv\<close>, a parameter here) parses
  the file into objects or throws; every object is given the \<open>type\<close> unless the type
  is \<^verbatim>\<open>'stations'\<close>, and is inserted. The result is the database after the call and
  the error the callback is called with, if any.
\<close>

type_synonym converter = "string \<Rightarrow> format \<Rightarrow> string \<Rightarrow> string + doc list"

definition typed :: "string \<Rightarrow> doc \<Rightarrow> doc" where
  "typed type obj =
     (if type \<noteq> ''stations'' then AList.update ''type'' (JString type) obj else obj)"

definition importCsv ::
  "converter \<Rightarrow> string \<Rightarrow> format \<Rightarrow> collection \<Rightarrow> string \<Rightarrow> string \<Rightarrow> db
     \<Rightarrow> db \<times> string option" where
  "importCsv convertToJson file format collection type delimiter db =
     (case convertToJson file format delimiter of
        Inl e \<Rightarrow> (db, Some e)
      | Inr objArr \<Rightarrow>
          (fold (\<lambda>obj db'. db' @ [Insert collection (typed type obj)]) objArr db, None))"

definition csvs :: "csv list" where
  "csvs =
     [\<lparr>csv_path = ''./csv/Entsorgung_Sammelstellen.csv'',
       csv_format = stationEntry,
       csv_delimiter = '','',
       csv_collection = station,
       csv_type = ''stations''\<rparr>,
      \<lparr>csv_path = ''./csv/Entsorgungskalender_Bioabfall_2014.csv'',
       csv_format = calendarEntry,
       csv_delimiter = '';'',
       csv_collection = calendar,
       csv_type = ''organic''\<rparr>,
      \<lparr>csv_path = ''./csv/Entsorgungskalender_CargoTram_2014.csv'',
       csv_format = calendarEntry,
       csv_delimiter = '';'',
       csv_collection = calendar,
       csv_type = ''cargotram''\<rparr>,
      \<lparr>csv_path = ''./csv/Entsorgungskalender_eTram_2014.csv'',
       csv_format = calendarEntry,
       csv_delimiter = '';'',
       csv_collection = calendar,
       csv_type = ''etram''\<rparr>,
      \<lparr>csv_path = ''./csv/Entsorgungskalender_Karton_2014.csv'',
       csv_format = calendarEntry,
       csv_delimiter = '';'',
       csv_collection = calendar,
       csv_type = ''cardboard''\<rparr>,
      \<lparr>csv_path = ''./csv/Entsorgungskalender_Papier_2014.csv'',
       csv_format = calendarEntry,
       csv_delimiter = '';'',
       csv_collection = calendar,
       csv_type = ''paper''\<rparr>,
      \<lparr>csv_path = ''./csv/Entsorgungskalender_Kehricht_2014.csv'',
       csv_format = calendarEntry,
       csv_delimiter = '';'',
       csv_collection = calendar,
       csv_type = ''waste''\<rparr>,
      \<lparr>csv_path = ''./csv/Entsorgungskalender_Sonderabfall_2014.csv'',
       csv_format = calendarEntry,
       csv_delimiter = '';'',
       csv_collection = calendar,
       csv_type = ''special''\<rparr>,
      \<lparr>csv_path = ''./csv/Entsorgungskalender_Textilien_2014.csv'',
       csv_format = calendarEntry,
       csv_delimiter = '';'',
       csv_collection = calendar,
       csv_type = ''textile''\<rparr>,
      \<lparr>csv_path = ''./csv/Entsorgungskalender_Bioabfall_2015.csv'',
       csv_format = calendarEntry,
       csv_delimiter = '';'',
       csv_collection = calendar,
       csv_type = ''organic''\<rparr>,
      \<lparr>csv_path = ''./csv/Entsorgungskalender_CargoTram_2015.csv'',
       csv_format = calendarEntry,
       csv_delimiter = '';'',
       csv_collection = calendar,
       csv_type = ''cargotram''\<rparr>,
      \<lparr>csv_path = ''./csv/Entsorgungskalender_eTram_2015.csv'',
       csv_format = calendarEntry,
       csv_delimiter = '';'',
       csv_collection = calendar,
       csv_type = ''etram''\<rparr>,
      \<lparr>csv_path = ''./csv/Entsorgungskalender_Karton_2015.csv'',
       csv_format = calendarEntry,
       csv_delimiter = '';'',
       csv_collection = calendar,
       csv_type = ''cardboard''\<rparr>,
      \<lparr>csv_path = ''./csv/Entsorgungskalender_Papier_2015.csv'',
       csv_format = calendarEntry,
       csv_delimiter = '';'',
       csv_collection = calendar,
       csv_type = ''paper''\<rparr>,
      \<lparr>csv_path = ''./csv/Entsorgungskalender_Kehricht_2015.csv'',
       csv_format = calendarEntry,
       csv_delimiter = '';'',
       csv_collection = calendar,
       csv_type = ''waste''\<rparr>,
      \<lparr>csv_path = ''./csv/Entsorgungskalender_Sonderabfall_2015.csv'',
       csv_format = calendarEntry,
       csv_delimiter = '';'',
       csv_collection = calendar,
       csv_type = ''special''\<rparr>,
      \<lparr>csv_path = ''./csv/Entsorgungskalender_Textilien_2015.csv'',
       csv_format = calendarEntry,
       csv_delimiter = '';'',
       csv_collection = calendar,
       csv_type = ''textile''\<rparr>,
      \<lparr>csv_path = ''./csv/Entsorgungskalender_Bioabfall_2016.csv'',
       csv_format = calendarEntry,
       csv_delimiter = '','',
       csv_collection = calendar,
       csv_type = ''organic''\<rparr>,
      \<lparr>csv_path = ''./csv/Entsorgungskalender_CargoTram_2016.csv'',
       csv_format = calendarEntry,
       csv_delimiter = '','',
       csv_collection = calendar,
       csv_type = ''cargotram''\<rparr>,
      \<lparr>csv_path = ''./csv/Entsorgungskalender_eTram_2016.csv'',
       csv_format = calendarEntry,
       csv_delimiter = '','',
       csv_collection = calendar,
       csv_type = ''etram''\<rparr>,
      \<lparr>csv_path = ''./csv/Entsorgungskalender_Karton_2016.csv'',
       csv_format = calendarEntry,
       csv_delimiter = '','',
       csv_collection = calendar,
       csv_type = ''cardboard''\<rparr>,
      \<lparr>csv_path = ''./csv/Entsorgungskalender_Papier_2016.csv'',
       csv_format = calendarEntry,
       csv_delimiter = '','',
       csv_collection = calendar,
       csv_type = ''paper''\<rparr>,
      \<lparr>csv_path = ''./csv/Entsorgungskalender_Kehricht_2016.csv'',
       csv_format = calendarEntry,
       csv_delimiter = '','',
       csv_collection = calendar,
       csv_type = ''waste''\<rparr>,
      \<lparr>csv_path = ''./csv/Entsorgungskalender_Sonderabfall_2016.csv'',
       csv_format = calendarEntry,
       csv_delimiter = '','',
       csv_collection = calendar,
       csv_type = ''special''\<rparr>,
      \<lparr>csv_path = ''./csv/Entsorgungskalender_Textilien_2016.csv'',
       csv_format = calendarEntry,
       csv_delimiter = '','',
       csv_collection = calendar,
       csv_type = ''textile''\<rparr>]"

text \<open>
  \<^verbatim>\<open>async.eachSeries\<close>: one item after the other, stopping at the first error.
\<close>

fun eachSeries :: "('a \<Rightarrow> 's \<Rightarrow> 's \<times> 'e option) \<Rightarrow> 'a list \<Rightarrow> 's \<Rightarrow> 's \<times> 'e option" where
  "eachSeries iteratee [] s = (s, None)"
| "eachSeries iteratee (x # xs) s =
     (case iteratee x s of
        (s', Some err) \<Rightarrow> (s', Some err)
      | (s', None) \<Rightarrow> eachSeries iteratee xs s')"

text \<open>
  The \<^verbatim>\<open>ready\<close> callback: both collections are removed, then the files are imported
  in series. The result is the commands issued and the exit code of the process.
\<close>

definition import_one :: "converter \<Rightarrow> csv \<Rightarrow> db \<Rightarrow> db \<times> string option" where
  "import_one convertToJson c db =
     importCsv convertToJson (csv_path c) (csv_format c) (csv_collection c) (csv_type c)
       (csv_delimiter c) db"

definition ready :: "converter \<Rightarrow> db \<times> nat" where
  "ready convertToJson =
     (let db1 = [Remove station];
          db2 = db1 @ [Remove calendar]
      in case eachSeries (import_one convertToJson) csvs db2 of
           (db3, Some err) \<Rightarrow> (db3, 1)
         | (db3, None) \<Rightarrow> (db3, 0))"

section \<open>The query engine\<close>

text \<open>
  Modelled from the spec: the query engine behind \<^verbatim>\<open>station.handler()\<close> and
  \<^verbatim>\<open>calendar.handler(type, region)\<close> (\<^verbatim>\<open>lib/station.js\<close> and
  \<^verbatim>\<open>lib/calendar.js\<close> are not among the sources). The spec: absent filters impose
  no constraint; sort keys are applied as successive tie-breakers; \<open>offset\<close> skips that
  many matching rows after filter and sort; \<open>limit\<close> caps the returned row count;
  \<open>total_count\<close> reports the filtered, pre-pagination count and \<open>row_count\<close> the
  number of rows actually returned.
\<close>

fun insert_sorted :: "('r \<Rightarrow> 'r \<Rightarrow> bool) \<Rightarrow> 'r \<Rightarrow> 'r list \<Rightarrow> 'r list" where
  "insert_sorted before x [] = [x]"
| "insert_sorted before x (y # ys) =
     (if before y x \<and> \<not> before x y then y # insert_sorted before x ys else x # y # ys)"

fun sort_rows :: "('r \<Rightarrow> 'r \<Rightarrow> bool) \<Rightarrow> 'r list \<Rightarrow> 'r list" where
  "sort_rows before [] = []"
| "sort_rows before (x # xs) = insert_sorted before x (sort_rows before xs)"

definition query ::
  "('r \<Rightarrow> bool) \<Rightarrow> ('r \<Rightarrow> 'r \<Rightarrow> bool) \<Rightarrow> nat \<Rightarrow> nat \<Rightarrow> 'r list \<Rightarrow> 'r response" where
  "query matches before offset limit records =
     (let matching = sort_rows before (filter matches records);
          rows = take limit (drop offset matching)
      in \<lparr>metadata = \<lparr>total_count = length matching, row_count = length rows\<rparr>,
          result = rows\<rparr>)"

section \<open>A sample configuration\<close>

text \<open>
  A small configuration of the shape the routes read, and a converter for the import job,
  on which the theorems below are exercised.
\<close>

definition sample_parameter :: "string list option \<Rightarrow> joi obj" where
  "sample_parameter ts =
     [(''region'', valid [JString ''basel'', JString ''zurich''] Joi_string),
      (''zip'', max_limit 9999 (min_limit 1000 (integer Joi_number))),
      (''types'', (case ts of
                     None \<Rightarrow> Joi_string
                   | Some xs \<Rightarrow> valid (map JString xs) Joi_string)),
      (''sort'', Joi_string),
      (''offset'', default_value (JNumber 0) Joi_number),
      (''limit'', default_value (JNumber 500) Joi_number)]"

definition zurich :: regionEntry where
  "zurich = \<lparr>route = ''zurich'', types = [''waste'', ''paper'', ''cargotram''],
             omitParams = [''region'']\<rparr>"

definition basel :: regionEntry where
  "basel = \<lparr>route = ''basel'', types = [''waste'', ''organic''],
            omitParams = [''region'', ''zip'']\<rparr>"

definition all_entry :: routeEntry where
  "all_entry = \<lparr>entry_type = None, entry_description = ''Get the calendar'',
                entry_notes = ''All types'',
                params = [''region'', ''zip'', ''types'', ''sort'', ''offset'', ''limit'']\<rparr>"

definition paper_entry :: routeEntry where
  "paper_entry = \<lparr>entry_type = Some ''paper'', entry_description = ''Get the paper calendar'',
                  entry_notes = ''Paper only'',
                  params = [''region'', ''zip'', ''sort'', ''offset'', ''limit'']\<rparr>"

definition sample_config :: config where
  "sample_config =
     \<lparr>config_region = [(''zurich'', zurich), (''basel'', basel)],
      config_calendar = [all_entry, paper_entry],
      config_parameter = sample_parameter,
      config_types = [''waste'', ''paper'', ''cargotram'', ''organic'']\<rparr>"

definition sample_row :: doc where
  "sample_row = [(''date'', JString ''2014-01-06''), (''zip'', JNumber 8001)]"

definition sample_converter :: converter where
  "sample_converter file format delimiter =
     (if format = stationEntry then Inr [[(''name'', JString ''Hardau''), (''zip'', JNumber 8004)]]
      else if file = ''./csv/Entsorgungskalender_Papier_2014.csv''
              \<or> file = ''./csv/Entsorgungskalender_Papier_2015.csv''
        then Inr [sample_row]
      else Inr [])"

definition sample_rows :: "csv \<Rightarrow> doc list" where
  "sample_rows c =
     (case sample_converter (csv_path c) (csv_format c) (csv_delimiter c) of
        Inr rows \<Rightarrow> rows
      | Inl e \<Rightarrow> [])"

section \<open>Properties\<close>

subsection \<open>The generated calendar routes\<close>

lemma fold_server_route:
  "fold (\<lambda>x. server_route (f x)) xs server = server @ map f xs"
  by (induction xs arbitrary: server) (simp_all add: server_route_def)

lemma fold_region_step:
  "fold (region_step parameters regionEntry) es server =
     server @ map (region_route parameters regionEntry)
                (filter (\<lambda>e. \<not> skipped regionEntry e) es)"
  by (induction es arbitrary: server) (simp_all add: region_step_def server_route_def)

lemma fold_regions:
  "fold (\<lambda>regionEntry server'.
             let parameters = region_params cfg regionEntry
             in fold (region_step parameters regionEntry) (config_calendar cfg) server') rs server
   = server @ concat (map (\<lambda>regionEntry.
        map (region_route (region_params cfg regionEntry) regionEntry)
          (filter (\<lambda>e. \<not> skipped regionEntry e) (config_calendar cfg))) rs)"
  by (induction rs arbitrary: server) (simp_all add: fold_region_step)

lemma addRegionRoutes_eq:
  "addRegionRoutes cfg server =
     server @ concat (map (\<lambda>regionEntry.
        map (region_route (region_params cfg regionEntry) regionEntry)
          (filter (\<lambda>e. \<not> skipped regionEntry e) (config_calendar cfg)))
       (map snd (config_region cfg)))"
  unfolding addRegionRoutes_def by (rule fold_regions)

lemma addCalendarRoutes_eq:
  "addCalendarRoutes cfg server =
     server @ map (calendar_route (config_parameter cfg None)) (config_calendar cfg)"
  by (simp add: addCalendarRoutes_def fold_server_route)

lemma sample_simps:
  "config_region sample_config = [(''zurich'', zurich), (''basel'', basel)]"
  "config_calendar sample_config = [all_entry, paper_entry]"
  "config_parameter sample_config = sample_parameter"
  "config_types sample_config = [''waste'', ''paper'', ''cargotram'', ''organic'']"
  by (simp_all add: sample_config_def)

text \<open>
  C2. A pair of a region and a calendar route entry adds a region route exactly when the
  entry's type is absent (\<^verbatim>\<open>undefined\<close>, or the empty string, which the guard's
  truthiness test does not tell apart) or is among the region's types; so
  \<^verbatim>\<open>addRegionRoutes\<close> adds, region by region, one route for each such entry and no
  other. \<^verbatim>\<open>addCalendarRoutes\<close> adds one \<^verbatim>\<open>/api/calendar\<close> route for every
  entry, whatever its type.
\<close>

theorem route_generation:
  "region_step parameters regionEntry routeEntry server =
     (if (case entry_type routeEntry of
            None \<Rightarrow> True
          | Some t \<Rightarrow> t = [] \<or> t \<in> set (types regionEntry))
      then server @ [region_route parameters regionEntry routeEntry]
      else server)
   \<and> addRegionRoutes cfg server =
       server @ concat (map (\<lambda>regionEntry.
                  map (region_route (region_params cfg regionEntry) regionEntry)
                    (filter (\<lambda>routeEntry. case entry_type routeEntry of
                                             None \<Rightarrow> True
                                           | Some t \<Rightarrow> t = [] \<or> t \<in> set (types regionEntry))
                       (config_calendar cfg)))
                (map snd (config_region cfg)))
   \<and> addCalendarRoutes cfg server =
       server @ map (calendar_route (config_parameter cfg None)) (config_calendar cfg)
   \<and> length (addCalendarRoutes cfg []) = length (config_calendar cfg)"
proof -
  have s: "\<not> skipped r e \<longleftrightarrow>
     (case entry_type e of None \<Rightarrow> True | Some t \<Rightarrow> t = [] \<or> t \<in> set (types r))" for r e
    by (auto simp: skipped_def truthy_def split: option.splits)
  have 1: "region_step parameters regionEntry routeEntry server =
     (if (case entry_type routeEntry of
            None \<Rightarrow> True
          | Some t \<Rightarrow> t = [] \<or> t \<in> set (types regionEntry))
      then server @ [region_route parameters regionEntry routeEntry]
      else server)"
    by (simp add: region_step_def server_route_def s[symmetric])
  have 2: "addRegionRoutes cfg server =
       server @ concat (map (\<lambda>regionEntry.
                  map (region_route (region_params cfg regionEntry) regionEntry)
                    (filter (\<lambda>routeEntry. case entry_type routeEntry of
                                             None \<Rightarrow> True
                                           | Some t \<Rightarrow> t = [] \<or> t \<in> set (types regionEntry))
                       (config_calendar cfg)))
                (map snd (config_region cfg)))"
    by (simp only: addRegionRoutes_eq s)
  have 3: "addCalendarRoutes cfg server =
       server @ map (calendar_route (config_parameter cfg None)) (config_calendar cfg)"
    by (rule addCalendarRoutes_eq)
  have 4: "length (addCalendarRoutes cfg []) = length (config_calendar cfg)"
    by (simp add: addCalendarRoutes_eq)
  from 1 2 3 4 show ?thesis by blast
qed

text \<open>
  On the sample configuration: Zurich lists the paper type and gets both routes, Basel
  does not and gets the untyped route only.
\<close>

theorem route_generation_witness:
  "map path (addRegionRoutes sample_config []) =
     [''/api/region/zurich/calendar{format?}'',
      ''/api/region/zurich/calendar/paper{format?}'',
      ''/api/region/basel/calendar{format?}'']
   \<and> map path (addCalendarRoutes sample_config []) =
     [''/api/calendar{format?}'', ''/api/calendar/paper{format?}'']"
  using route_generation [where cfg = sample_config and server = "[]"]
  by (simp add: sample_simps zurich_def basel_def all_entry_def paper_entry_def
      region_route_def calendar_route_def type_segment_def truthy_def)

subsection \<open>The parameters a region route permits\<close>

lemma map_of_pick_fold:
  "map_of (fold (\<lambda>key result. case map_of obj key of
                           None \<Rightarrow> result
                         | Some v \<Rightarrow> AList.update key v result) ks acc) k
   = (if k \<in> set ks \<and> map_of obj k \<noteq> None then map_of obj k else map_of acc k)"
  by (induction ks arbitrary: acc) (auto simp: update_conv' split: option.splits)

lemma map_of_pick:
  "map_of (pick obj ks) k = (if k \<in> set ks then map_of obj k else None)"
  by (auto simp: pick_def map_of_pick_fold)

lemma map_of_omit:
  "map_of (omit obj ks) k = (if k \<in> set ks then None else map_of obj k)"
  by (induction obj) (auto simp: omit_def)

lemma set_keys_dom: "set (keys obj) = dom (map_of obj)"
  by (simp add: keys_def dom_map_of_conv_image_fst)

lemma set_keys_pick: "set (keys (pick obj ks)) = set (keys obj) \<inter> set ks"
  by (auto simp: set_keys_dom map_of_pick dom_def)

lemma set_keys_omit: "set (keys (omit obj ks)) = set (keys obj) - set ks"
  by (auto simp: set_keys_dom map_of_omit dom_def)

lemma pick_omit_commute:
  "map_of (pick (omit obj os) ks) = map_of (omit (pick obj ks) os)"
  by (rule ext) (simp add: map_of_pick map_of_omit)

lemma Joi_object_unknown:
  assumes "k \<in> set (keys v)" "k \<notin> set (keys schema)"
  shows "\<exists>e. Joi_object schema v = Inl e"
proof -
  from assms have "filter (\<lambda>k. k \<notin> set (keys schema)) (keys v) \<noteq> []"
    by (auto simp: filter_empty_conv)
  then obtain x xs where "filter (\<lambda>k. k \<notin> set (keys schema)) (keys v) = x # xs"
    by (cases "filter (\<lambda>k. k \<notin> set (keys schema)) (keys v)") auto
  then show ?thesis
    by (simp add: Joi_object_def split: sum.splits)
qed

text \<open>
  C1. Every route that \<^verbatim>\<open>addRegionRoutes\<close> generates comes from a region and a
  calendar route entry, and its query rules are the region's parameter schema with the
  region's \<open>omitParams\<close> omitted and then the entry's \<open>params\<close> picked. That object
  has the same entries as the one obtained by picking first and omitting afterwards; its
  keys are exactly the names that are in the schema for the region's types, listed in the
  entry's \<open>params\<close> and not in the region's \<open>omitParams\<close>; and a request that
  carries any other key is rejected.
\<close>

theorem region_route_parameters:
  assumes "r \<in> set (addRegionRoutes cfg [])"
  shows "\<exists>regionEntry \<in> set (map snd (config_region cfg)).
         \<exists>routeEntry \<in> set (config_calendar cfg).
           r = region_route (region_params cfg regionEntry) regionEntry routeEntry \<and>
           (\<exists>q. validate_query r = Some q \<and>
              q = pick (omit (config_parameter cfg (Some (types regionEntry)))
                          (omitParams regionEntry)) (params routeEntry) \<and>
              map_of q = map_of (omit (pick (config_parameter cfg (Some (types regionEntry)))
                                        (params routeEntry)) (omitParams regionEntry)) \<and>
              set (keys q) = set (keys (omit (pick (config_parameter cfg (Some (types regionEntry)))
                                        (params routeEntry)) (omitParams regionEntry))) \<and>
              set (keys q) = (set (keys (config_parameter cfg (Some (types regionEntry))))
                                \<inter> set (params routeEntry)) - set (omitParams regionEntry) \<and>
              (\<forall>v k. k \<in> set (keys v) \<and> k \<notin> set (keys q) \<longrightarrow> (\<exists>e. Joi_object q v = Inl e)))"
proof -
  from assms obtain regionEntry routeEntry where
    re: "regionEntry \<in> set (map snd (config_region cfg))" and
    ro: "routeEntry \<in> set (config_calendar cfg)" and
    r: "r = region_route (region_params cfg regionEntry) regionEntry routeEntry"
    by (auto simp: addRegionRoutes_eq)
  let ?P = "config_parameter cfg (Some (types regionEntry))"
  let ?q = "pick (omit ?P (omitParams regionEntry)) (params routeEntry)"
  have q: "validate_query r = Some ?q"
    by (simp add: r region_route_def region_params_def)
  have m: "map_of ?q = map_of (omit (pick ?P (params routeEntry)) (omitParams regionEntry))"
    by (rule pick_omit_commute)
  have k1: "set (keys ?q) = set (keys (omit (pick ?P (params routeEntry)) (omitParams regionEntry)))"
    by (auto simp: set_keys_pick set_keys_omit)
  have k2: "set (keys ?q) = (set (keys ?P) \<inter> set (params routeEntry)) - set (omitParams regionEntry)"
    by (auto simp: set_keys_pick set_keys_omit)
  have u: "\<forall>v k. k \<in> set (keys v) \<and> k \<notin> set (keys ?q) \<longrightarrow> (\<exists>e. Joi_object ?q v = Inl e)"
    using Joi_object_unknown by blast
  from re ro r q m k1 k2 u show ?thesis by blast
qed

text \<open>
  On the sample configuration, the untyped route of Basel: the schema has six names, the
  entry lists all six, and Basel omits \<open>region\<close> and \<open>zip\<close>.
\<close>

theorem region_route_parameters_witness:
  "region_route (region_params sample_config basel) basel all_entry
     \<in> set (addRegionRoutes sample_config [])
   \<and> (\<exists>regionEntry \<in> set (map snd (config_region sample_config)).
       \<exists>routeEntry \<in> set (config_calendar sample_config).
         region_route (region_params sample_config basel) basel all_entry
           = region_route (region_params sample_config regionEntry) regionEntry routeEntry \<and>
         (\<exists>q. validate_query (region_route (region_params sample_config basel) basel all_entry)
                 = Some q \<and>
            set (keys q) = (set (keys (config_parameter sample_config (Some (types regionEntry))))
                              \<inter> set (params routeEntry)) - set (omitParams regionEntry)))
   \<and> map_option keys
        (validate_query (region_route (region_params sample_config basel) basel all_entry))
       = Some [''types'', ''sort'', ''offset'', ''limit'']"
proof -
  have mem: "region_route (region_params sample_config basel) basel all_entry
     \<in> set (addRegionRoutes sample_config [])"
    by (simp add: addRegionRoutes_eq sample_simps skipped_def truthy_def all_entry_def)
  have ks: "map_option keys
        (validate_query (region_route (region_params sample_config basel) basel all_entry))
       = Some [''types'', ''sort'', ''offset'', ''limit'']"
    by (simp add: region_route_def region_params_def sample_simps sample_parameter_def
        basel_def all_entry_def omit_def pick_def keys_def)
  from region_route_parameters [OF mem] mem ks show ?thesis by blast
qed

subsection \<open>The parameter routes\<close>

lemma addParamRoutes_eq:
  "addParamRoutes cfg server =
     server @ [parameter_regions_route (sort (keys (config_region cfg))),
               parameter_types_route (config_parameter cfg None) (config_region cfg)
                 (config_types cfg)]"
  by (simp add: addParamRoutes_def Let_def server_route_def)

text \<open>
  C7. \<^verbatim>\<open>addParamRoutes\<close> registers the route \<^verbatim>\<open>/api/parameter/regions\<close>; its
  handler answers every request with the region slugs of the configuration in ascending
  order (a sorted rearrangement of the configured keys), in the envelope whose
  \<open>total_count\<close> and \<open>row_count\<close> both are the number of configured regions.
\<close>

theorem parameter_regions_sorted:
  "parameter_regions_route (sort (keys (config_region cfg))) \<in> set (addParamRoutes cfg server)
   \<and> path (parameter_regions_route (sort (keys (config_region cfg)))) = ''/api/parameter/regions''
   \<and> parameter_reply (handler (parameter_regions_route (sort (keys (config_region cfg))))) region
        = Some (Inr \<lparr>metadata = \<lparr>total_count = length (config_region cfg),
                                  row_count = length (config_region cfg)\<rparr>,
                      result = sort (keys (config_region cfg))\<rparr>)
   \<and> sorted (sort (keys (config_region cfg)))
   \<and> mset (sort (keys (config_region cfg))) = mset (keys (config_region cfg))"
  by (simp add: addParamRoutes_eq parameter_regions_route_def regions_result_def keys_def)

text \<open>The sample configuration lists Zurich before Basel; the reply lists Basel first.\<close>

theorem parameter_regions_sorted_witness:
  "parameter_reply (handler (parameter_regions_route (sort (keys (config_region sample_config))))) None
     = Some (Inr \<lparr>metadata = \<lparr>total_count = 2, row_count = 2\<rparr>,
                  result = [''basel'', ''zurich'']\<rparr>)"
  using parameter_regions_sorted [where cfg = sample_config and server = "[]" and region = None]
  by (simp add: sample_simps keys_def)

text \<open>
  C6. \<^verbatim>\<open>addParamRoutes\<close> registers the route \<^verbatim>\<open>/api/parameter/types\<close>. For a
  request whose \<open>region\<close> is a configured region slug, its handler returns the type
  list of that region as configured, in its order; for a request without \<open>region\<close>
  it returns the list of all types. In both replies \<open>total_count\<close> and \<open>row_count\<close>
  are the length of the returned list.
\<close>

theorem parameter_types_reply:
  "parameter_types_route (config_parameter cfg None) (config_region cfg) (config_types cfg)
     \<in> set (addParamRoutes cfg server)
   \<and> path (parameter_types_route (config_parameter cfg None) (config_region cfg) (config_types cfg))
       = ''/api/parameter/types''
   \<and> (\<forall>region regionEntry.
        region \<noteq> [] \<and> map_of (config_region cfg) region = Some regionEntry \<longrightarrow>
        parameter_reply (handler (parameter_types_route (config_parameter cfg None)
                                    (config_region cfg) (config_types cfg))) (Some region)
          = Some (Inr \<lparr>metadata = \<lparr>total_count = length (types regionEntry),
                                    row_count = length (types regionEntry)\<rparr>,
                        result = types regionEntry\<rparr>))
   \<and> parameter_reply (handler (parameter_types_route (config_parameter cfg None)
                                 (config_region cfg) (config_types cfg))) None
       = Some (Inr \<lparr>metadata = \<lparr>total_count = length (config_types cfg),
                                 row_count = length (config_types cfg)\<rparr>,
                     result = config_types cfg\<rparr>)"
  by (simp add: addParamRoutes_eq parameter_types_route_def types_result_def truthy_def)

theorem parameter_types_reply_witness:
  "''zurich'' \<noteq> [] \<and> map_of (config_region sample_config) ''zurich'' = Some zurich
   \<and> parameter_reply (handler (parameter_types_route (config_parameter sample_config None)
                                    (config_region sample_config) (config_types sample_config)))
         (Some ''zurich'')
       = Some (Inr \<lparr>metadata = \<lparr>total_count = 3, row_count = 3\<rparr>,
                     result = [''waste'', ''paper'', ''cargotram'']\<rparr>)"
proof -
  have h: "''zurich'' \<noteq> [] \<and> map_of (config_region sample_config) ''zurich'' = Some zurich"
    by (simp add: sample_simps)
  from parameter_types_reply [where cfg = sample_config and server = "[]"] h
  have "parameter_reply (handler (parameter_types_route (config_parameter sample_config None)
                                    (config_region sample_config) (config_types sample_config)))
         (Some ''zurich'')
       = Some (Inr \<lparr>metadata = \<lparr>total_count = length (types zurich),
                                    row_count = length (types zurich)\<rparr>,
                        result = types zurich\<rparr>)"
    by blast
  with h show ?thesis by (simp add: zurich_def)
qed

subsection \<open>Validation on the station route\<close>

lemmas joi_builders =
  Joi_string_def Joi_number_def Joi_boolean_def Joi_any_def allow_def valid_def integer_def
  min_limit_def max_limit_def optional_def default_value_def description_def

lemma addStationRoutes_eq:
  "addStationRoutes cfg server = server @ [station_route (sort (keys (config_region cfg)))]"
  by (simp add: addStationRoutes_def server_route_def)

lemma number_rule_accepts:
  assumes "base s = Number_base" "valids s = []" "\<not> only s" "rules s = []"
  shows "validate_key s None = Inr (default_flag s)"
    and "\<bar>q\<bar> \<le> MAX_SAFE_INTEGER \<Longrightarrow> validate_key s (Some (JNumber q)) = Inr (Some (JNumber q))"
    and "MAX_SAFE_INTEGER < \<bar>q\<bar> \<Longrightarrow> validate_key s (Some (JNumber q)) = Inl Number_unsafe"
    and "validate_key s (Some (JString t)) = Inl Number_base_error"
    and "validate_key s (Some (JBoolean b)) = Inl Number_base_error"
    and "validate_key s (Some (JUnsafe t)) = Inl Number_unsafe"
  using assms by (simp_all add: validate_key_def validate_value_def)

text \<open>
  C3, as the claim states it, fails: the rules of \<open>offset\<close> and \<open>limit\<close> are
  \<^verbatim>\<open>Joi.number().optional()\<close> with a default and nothing else, so the request
  \<^verbatim>\<open>/api/stations?offset=-5\<close> and the request
  \<^verbatim>\<open>/api/stations?offset=0&limit=1.5\<close> both pass validation and reach the handler
  with these values.
\<close>

theorem station_offset_limit_counterexample:
  "validate_request (station_route (sort (keys (config_region sample_config))))
       [(''format'', JString '''')] [(''offset'', JNumber (- 5))]
     = Inr ([(''format'', JString '''')],
            [(''offset'', JNumber (- 5)), (''limit'', JNumber 500)])
   \<and> validate_request (station_route (sort (keys (config_region sample_config))))
       [(''format'', JString '''')] [(''offset'', JNumber 0), (''limit'', JNumber (3 / 2))]
     = Inr ([(''format'', JString '''')],
            [(''offset'', JNumber 0), (''limit'', JNumber (3 / 2))])"
  by (simp add: sample_simps keys_def station_route_def station_query_def station_format_def
      validate_request_def validate_part_def Joi_object_def validate_key_def validate_value_def
      joi_builders MAX_SAFE_INTEGER_def)

text \<open>
  C3, amended. On the station route \<open>offset\<close> and \<open>limit\<close> are validated as
  numbers, not as non-negative integers. A missing value becomes the default, 0 for
  \<open>offset\<close> and 500 for \<open>limit\<close>. A value is rejected only for not being a
  number (\<^verbatim>\<open>number.base\<close>) or for being unsafe (\<^verbatim>\<open>number.unsafe\<close>: numeric text
  that does not convert without loss, or a number outside the safe range), never for
  being negative or for not being an integer: every number the library converts the
  text to without loss and finds in the safe range passes unchanged.
\<close>

theorem station_offset_limit:
  "\<exists>offset limit.
     map_of (station_query regions) ''offset'' = Some offset
   \<and> map_of (station_query regions) ''limit'' = Some limit
   \<and> validate_key offset None = Inr (Some (JNumber 0))
   \<and> validate_key limit None = Inr (Some (JNumber 500))
   \<and> (\<forall>q. \<bar>q\<bar> \<le> MAX_SAFE_INTEGER \<longrightarrow>
          validate_key offset (Some (JNumber q)) = Inr (Some (JNumber q))
        \<and> validate_key limit (Some (JNumber q)) = Inr (Some (JNumber q)))
   \<and> (\<forall>q. MAX_SAFE_INTEGER < \<bar>q\<bar> \<longrightarrow>
          validate_key offset (Some (JNumber q)) = Inl Number_unsafe
        \<and> validate_key limit (Some (JNumber q)) = Inl Number_unsafe)
   \<and> (\<forall>t. validate_key offset (Some (JUnsafe t)) = Inl Number_unsafe
        \<and> validate_key limit (Some (JUnsafe t)) = Inl Number_unsafe)
   \<and> (\<forall>t. validate_key offset (Some (JString t)) = Inl Number_base_error
        \<and> validate_key limit (Some (JString t)) = Inl Number_base_error)
   \<and> (\<forall>b. validate_key offset (Some (JBoolean b)) = Inl Number_base_error
        \<and> validate_key limit (Some (JBoolean b)) = Inl Number_base_error)
   \<and> (\<forall>v e. validate_key offset (Some v) = Inl e \<or> validate_key limit (Some v) = Inl e
          \<longrightarrow> e = Number_base_error \<or> e = Number_unsafe)"
proof -
  let ?off = "default_value (JNumber 0)
         (description ''Offset from all results, together with `limit` this can be used for pagination.''
           (optional Joi_number))"
  let ?lim = "default_value (JNumber 500)
         (description ''Limit the amount of returned records.''
           (optional Joi_number))"
  have o: "map_of (station_query regions) ''offset'' = Some ?off"
    by (simp add: station_query_def)
  have l: "map_of (station_query regions) ''limit'' = Some ?lim"
    by (simp add: station_query_def)
  have po: "base ?off = Number_base" "valids ?off = []" "\<not> only ?off" "rules ?off = []"
       "default_flag ?off = Some (JNumber 0)"
    by (simp_all add: joi_builders)
  have pl: "base ?lim = Number_base" "valids ?lim = []" "\<not> only ?lim" "rules ?lim = []"
       "default_flag ?lim = Some (JNumber 500)"
    by (simp_all add: joi_builders)
  note no = number_rule_accepts [OF po(1-4)]
  note nl = number_rule_accepts [OF pl(1-4)]
  have e: "e = Number_base_error \<or> e = Number_unsafe"
    if "validate_key ?off (Some v) = Inl e \<or> validate_key ?lim (Some v) = Inl e" for v e
  proof (cases v)
    case (JNumber q)
    with that show ?thesis
      using no(2,3) [of q] nl(2,3) [of q] by (cases "\<bar>q\<bar> \<le> MAX_SAFE_INTEGER") auto
  qed (use that no(4-6) nl(4-6) in auto)
  show ?thesis
    apply (rule exI [of _ ?off], rule exI [of _ ?lim])
    using o l no nl po(5) pl(5) e by simp
qed

text \<open>
  The numbers \<open>-5\<close> and \<open>3/2\<close> lie in the safe range and pass; the text
  \<^verbatim>\<open>1.00000000000000001\<close>, which does not convert without loss, is refused.
\<close>

theorem station_offset_limit_witness:
  "\<bar>- 5\<bar> \<le> MAX_SAFE_INTEGER \<and> \<bar>3 / 2\<bar> \<le> MAX_SAFE_INTEGER
   \<and> (\<exists>offset limit.
        map_of (station_query [''basel'', ''zurich'']) ''offset'' = Some offset
      \<and> map_of (station_query [''basel'', ''zurich'']) ''limit'' = Some limit
      \<and> validate_key offset (Some (JNumber (- 5))) = Inr (Some (JNumber (- 5)))
      \<and> validate_key limit (Some (JNumber (3 / 2))) = Inr (Some (JNumber (3 / 2)))
      \<and> validate_key offset (Some (JUnsafe ''1.00000000000000001'')) = Inl Number_unsafe)"
proof -
  have h: "\<bar>- 5\<bar> \<le> MAX_SAFE_INTEGER" "\<bar>3 / 2\<bar> \<le> MAX_SAFE_INTEGER"
    by (simp_all add: MAX_SAFE_INTEGER_def)
  from station_offset_limit [of "[''basel'', ''zurich'']"] h show ?thesis
    by blast
qed

text \<open>The same text in a request to the station route of the sample configuration.\<close>

lemma station_unsafe_request:
  "validate_request (station_route (sort (keys (config_region sample_config))))
       [(''format'', JString '''')] [(''offset'', JUnsafe ''1.00000000000000001'')]
     = Inl (''offset'', Number_unsafe)"
  by (simp add: sample_simps keys_def station_route_def station_query_def station_format_def
      validate_request_def validate_part_def Joi_object_def validate_key_def validate_value_def
      joi_builders MAX_SAFE_INTEGER_def)

text \<open>
  C4. The \<open>format\<close> rule of the station route is
  \<^verbatim>\<open>Joi.string().allow('', '.json')\<close>, that of both kinds of calendar routes
  \<^verbatim>\<open>Joi.string().allow('', '.ics', '.json')\<close>, each with the default \<^verbatim>\<open>'.json'\<close>.
  \<^verbatim>\<open>allow\<close> adds the listed values to what a string rule accepts and \<^verbatim>\<open>only\<close>
  stays unset, so every suffix passes on every one of these routes: the listed ones,
  \<^verbatim>\<open>'.ics'\<close> on the station route, and any other such as \<^verbatim>\<open>'.xml'\<close>. An
  undefined \<open>format\<close> becomes \<^verbatim>\<open>'.json'\<close>; the empty suffix of a path
  without extension is listed and passes as \<^verbatim>\<open>''\<close>.
\<close>

theorem format_accepts_any_suffix:
  "validate_part (validate_params (station_route regions)) [(''format'', JString t)]
       = Inr [(''format'', JString t)]
   \<and> validate_part (validate_params (calendar_route parameters routeEntry)) [(''format'', JString t)]
       = Inr [(''format'', JString t)]
   \<and> validate_part (validate_params (region_route parameters regionEntry routeEntry))
         [(''format'', JString t)]
       = Inr [(''format'', JString t)]
   \<and> validate_part (validate_params (station_route regions)) []
       = Inr [(''format'', JString ''.json'')]
   \<and> validate_part (validate_params (calendar_route parameters routeEntry)) []
       = Inr [(''format'', JString ''.json'')]
   \<and> validate_part (validate_params (region_route parameters regionEntry routeEntry)) []
       = Inr [(''format'', JString ''.json'')]"
  by (simp add: station_route_def calendar_route_def region_route_def station_format_def
      calendar_format_def validate_part_def Joi_object_def validate_key_def validate_value_def
      joi_builders keys_def)

text \<open>The station route of the sample configuration, asked for \<^verbatim>\<open>/api/stations.xml\<close>.\<close>

lemma station_xml_request:
  "validate_request (station_route (sort (keys (config_region sample_config))))
       [(''format'', JString ''.xml'')] []
     = Inr ([(''format'', JString ''.xml'')],
            [(''offset'', JNumber 0), (''limit'', JNumber 500)])"
  by (simp add: sample_simps keys_def station_route_def station_query_def station_format_def
      validate_request_def validate_part_def Joi_object_def validate_key_def validate_value_def
      joi_builders MAX_SAFE_INTEGER_def)

text \<open>
  C9. With at least one region configured, the \<open>region\<close> rule of the station route
  is \<^verbatim>\<open>Joi.string().valid(...)\<close> over the sorted region slugs; a request whose
  \<open>region\<close> is not one of the configured keys fails the validation of the query with
  \<^verbatim>\<open>any.only\<close> on \<open>region\<close>, and the request is answered with an error whatever
  the handler would have done: the handler is not run.
\<close>

theorem station_region_restricted:
  assumes "config_region cfg \<noteq> []"
      and "map_of request_query ''region'' = Some v"
      and "\<forall>k \<in> set (keys (config_region cfg)). v \<noteq> JString k"
  shows "addStationRoutes cfg server = server @ [station_route (sort (keys (config_region cfg)))]
     \<and> validate_part (validate_query (station_route (sort (keys (config_region cfg)))))
           request_query = Inl (''region'', Any_only)
     \<and> (\<exists>e. respond run (station_route (sort (keys (config_region cfg))))
                request_params request_query = Inl e)"
proof -
  let ?regions = "sort (keys (config_region cfg))"
  let ?rule = "description ''The region of the station'' (valid (map JString ?regions) Joi_string)"
  have ne: "?regions \<noteq> []"
    using assms(1) by (metis keys_def length_0_conv length_map length_sort)
  have only: "only ?rule" and valids: "valids ?rule = map JString ?regions"
    using ne by (simp_all add: joi_builders Let_def)
  have string: "base ?rule = String_base"
    by (simp add: joi_builders Let_def)
  have "v \<notin> set (valids ?rule)"
    using assms(3) by (auto simp: valids)
  then have "validate_key ?rule (Some v) = Inl Any_only"
    using only string by (simp add: validate_key_def validate_value_def)
  then have k: "validate_keys (station_query ?regions) request_query = Inl (''region'', Any_only)"
    using assms(2) by (simp add: station_query_def)
  have q: "validate_part (validate_query (station_route ?regions)) request_query
             = Inl (''region'', Any_only)"
    using k by (simp add: station_route_def validate_part_def Joi_object_def)
  have "\<exists>e. respond run (station_route ?regions) request_params request_query = Inl e"
    using q by (simp add: respond_def validate_request_def split: sum.splits)
  with q addStationRoutes_eq show ?thesis by blast
qed

theorem station_region_restricted_witness:
  "config_region sample_config \<noteq> []
   \<and> map_of [(''region'', JString ''bern'')] ''region'' = Some (JString ''bern'')
   \<and> validate_part (validate_query (station_route (sort (keys (config_region sample_config)))))
        [(''region'', JString ''bern'')] = Inl (''region'', Any_only)"
proof -
  have h1: "config_region sample_config \<noteq> []" by (simp add: sample_simps)
  have h2: "map_of [(''region'', JString ''bern'')] ''region'' = Some (JString ''bern'')" by simp
  have h3: "\<forall>k \<in> set (keys (config_region sample_config)). JString ''bern'' \<noteq> JString k"
    by (simp add: sample_simps keys_def)
  from station_region_restricted [OF h1 h2 h3] h1 h2 show ?thesis by blast
qed

subsection \<open>Pagination\<close>

lemma length_insert_sorted: "length (insert_sorted before x xs) = Suc (length xs)"
  by (induction xs) simp_all

lemma length_sort_rows: "length (sort_rows before xs) = length xs"
  by (induction xs) (simp_all add: length_insert_sorted)

text \<open>
  C5. For every offset and limit (natural numbers), the query result has
  \<open>row_count \<le> limit\<close> and \<open>row_count \<le> total_count\<close>; \<open>row_count\<close> is the
  number of rows returned, \<open>total_count\<close> the number of matching records, and so the
  same for two runs of a query that differ in offset and limit only.
\<close>

theorem query_pagination:
  "row_count (metadata (query matches before offset limit records)) \<le> limit
   \<and> row_count (metadata (query matches before offset limit records))
       \<le> total_count (metadata (query matches before offset limit records))
   \<and> total_count (metadata (query matches before offset' limit' records))
       = total_count (metadata (query matches before offset limit records))
   \<and> row_count (metadata (query matches before offset limit records))
       = length (result (query matches before offset limit records))
   \<and> total_count (metadata (query matches before offset limit records))
       = length (filter matches records)"
  by (simp add: query_def Let_def length_sort_rows)

subsection \<open>The import job\<close>

lemma fold_insert:
  "fold (\<lambda>obj db'. db' @ [f obj]) objArr db = db @ map f objArr"
  by (induction objArr arbitrary: db) simp_all

lemma import_one_ok:
  assumes "cj (csv_path c) (csv_format c) (csv_delimiter c) = Inr rows"
  shows "import_one cj c db =
           (db @ map (\<lambda>obj. Insert (csv_collection c) (typed (csv_type c) obj)) rows, None)"
  using assms by (simp add: import_one_def importCsv_def fold_insert)

lemma import_one_error:
  assumes "cj (csv_path c) (csv_format c) (csv_delimiter c) = Inl e"
  shows "import_one cj c db = (db, Some e)"
  using assms by (simp add: import_one_def importCsv_def)

lemma eachSeries_ok:
  assumes "\<forall>c\<in>set cs. cj (csv_path c) (csv_format c) (csv_delimiter c) = Inr (rows c)"
  shows "eachSeries (import_one cj) cs db =
           (db @ concat (map (\<lambda>c. map (\<lambda>obj. Insert (csv_collection c) (typed (csv_type c) obj))
                                    (rows c)) cs), None)"
  using assms by (induction cs arbitrary: db) (simp_all add: import_one_ok)

text \<open>Whatever the converter does, the commands of the series are inserts of typed rows.\<close>

lemma eachSeries_inserts:
  "\<exists>ins. fst (eachSeries (import_one cj) cs db) = db @ ins
        \<and> (\<forall>x\<in>set ins. \<exists>c\<in>set cs. \<exists>rows obj.
               cj (csv_path c) (csv_format c) (csv_delimiter c) = Inr rows \<and> obj \<in> set rows
             \<and> x = Insert (csv_collection c) (typed (csv_type c) obj))"
proof (induction cs arbitrary: db)
  case Nil
  show ?case by simp
next
  case (Cons c cs)
  show ?case
  proof (cases "cj (csv_path c) (csv_format c) (csv_delimiter c)")
    case (Inl e)
    then show ?thesis by (simp add: import_one_error)
  next
    case (Inr rows)
    let ?db = "db @ map (\<lambda>obj. Insert (csv_collection c) (typed (csv_type c) obj)) rows"
    from Cons.IH [of ?db] obtain ins where
      ins: "fst (eachSeries (import_one cj) cs ?db) = ?db @ ins"
      and all: "\<forall>x\<in>set ins. \<exists>c\<in>set cs. \<exists>rows obj.
               cj (csv_path c) (csv_format c) (csv_delimiter c) = Inr rows \<and> obj \<in> set rows
             \<and> x = Insert (csv_collection c) (typed (csv_type c) obj)"
      by blast
    let ?ins = "map (\<lambda>obj. Insert (csv_collection c) (typed (csv_type c) obj)) rows @ ins"
    have "fst (eachSeries (import_one cj) (c # cs) db) = db @ ?ins"
      using Inr ins by (simp add: import_one_ok)
    moreover have "\<forall>x\<in>set ?ins. \<exists>c'\<in>set (c # cs). \<exists>rows obj.
               cj (csv_path c') (csv_format c') (csv_delimiter c') = Inr rows \<and> obj \<in> set rows
             \<and> x = Insert (csv_collection c') (typed (csv_type c') obj)"
      using Inr all by auto
    ultimately show ?thesis by blast
  qed
qed

lemma ready_fst:
  "fst (ready cj) = fst (eachSeries (import_one cj) csvs [Remove station, Remove calendar])"
  by (simp add: ready_def split: prod.splits option.splits)

lemma execute_inserts:
  assumes "\<forall>x\<in>set cmds. is_insert x"
  shows "calendar_docs (fold execute cmds s) = calendar_docs s @ inserted calendar cmds
       \<and> station_docs (fold execute cmds s) = station_docs s @ inserted station cmds"
  using assms
proof (induction cmds arbitrary: s)
  case Nil
  show ?case by (simp add: inserted_def)
next
  case (Cons x xs)
  then obtain c obj where x: "x = Insert c obj" by (cases x) auto
  from Cons have IH: "calendar_docs (fold execute xs s') = calendar_docs s' @ inserted calendar xs
       \<and> station_docs (fold execute xs s') = station_docs s' @ inserted station xs" for s'
    by simp
  show ?case using IH [of "execute x s"] x
    by (cases c) (simp_all add: inserted_def)
qed

lemma inserted_concat:
  "inserted coll (concat (map (\<lambda>c. map (\<lambda>obj. Insert (csv_collection c) (typed (csv_type c) obj))
                                    (rows c)) cs))
   = concat (map (\<lambda>c. map (typed (csv_type c)) (rows c))
               (filter (\<lambda>c. csv_collection c = coll) cs))"
  by (induction cs) (simp_all add: inserted_def o_def)

lemma csvs_calendar:
  "\<forall>c\<in>set csvs. csv_collection c = calendar \<longrightarrow>
     csv_type c \<noteq> ''stations'' \<and>
     csv_type c \<in> set [''organic'', ''cargotram'', ''etram'', ''cardboard'', ''paper'',
                        ''waste'', ''special'', ''textile'']"
  by (simp add: csvs_def)

lemma csvs_station:
  "\<forall>c\<in>set csvs. csv_collection c = station \<longrightarrow>
     csv_type c = ''stations'' \<and> csv_path c = ''./csv/Entsorgung_Sammelstellen.csv''
     \<and> csv_format c = stationEntry \<and> csv_delimiter c = '',''"
  by (simp add: csvs_def)

lemma ready_sample:
  "ready sample_converter =
     ([Remove station, Remove calendar,
       Insert station [(''name'', JString ''Hardau''), (''zip'', JNumber 8004)],
       Insert calendar [(''date'', JString ''2014-01-06''), (''zip'', JNumber 8001),
                        (''type'', JString ''paper'')],
       Insert calendar [(''date'', JString ''2014-01-06''), (''zip'', JNumber 8001),
                        (''type'', JString ''paper'')]], 0)"
  by (simp add: ready_def csvs_def import_one_def importCsv_def sample_converter_def typed_def
      sample_row_def)

lemma execute_ready:
  assumes "\<forall>x\<in>set ins. is_insert x"
  shows "calendar_docs (execute_all ([Remove station, Remove calendar] @ ins) s)
           = inserted calendar ins
       \<and> station_docs (execute_all ([Remove station, Remove calendar] @ ins) s)
           = inserted station ins"
  using execute_inserts [OF assms, of "s\<lparr>station_docs := [], calendar_docs := []\<rparr>"]
  by (simp add: execute_all_def)

lemma inserted_ready:
  "inserted coll ([Remove station, Remove calendar] @ ins) = inserted coll ins"
  by (simp add: inserted_def)

lemma length_concat_rows:
  "length (concat (map (\<lambda>c. map (f c) (rows c)) cs)) = sum_list (map (\<lambda>c. length (rows c)) cs)"
  by (induction cs) simp_all

text \<open>
  C8. The commands of the import job start with one removal of the station collection
  and one of the calendar collection; every later command is an insert, so each collection
  is cleared once, before any insert, and holds afterwards exactly the documents
  inserted. When every file converts, there is one insert per parsed row, file after
  file in the order of the table and row after row, with no check for duplicates: the
  calendar collection ends with as many documents as the calendar files have rows.
\<close>

theorem import_clears_then_inserts:
  "(\<exists>ins. fst (ready cj) = [Remove station, Remove calendar] @ ins
         \<and> list_all is_insert ins
         \<and> calendar_docs (execute_all (fst (ready cj)) s) = inserted calendar ins
         \<and> station_docs (execute_all (fst (ready cj)) s) = inserted station ins)
   \<and> ((\<forall>c\<in>set csvs. cj (csv_path c) (csv_format c) (csv_delimiter c) = Inr (rows c)) \<longrightarrow>
        ready cj =
          ([Remove station, Remove calendar]
             @ concat (map (\<lambda>c. map (\<lambda>obj. Insert (csv_collection c) (typed (csv_type c) obj))
                                   (rows c)) csvs), 0)
      \<and> calendar_docs (execute_all (fst (ready cj)) s)
          = concat (map (\<lambda>c. map (typed (csv_type c)) (rows c))
                      (filter (\<lambda>c. csv_collection c = calendar) csvs))
      \<and> station_docs (execute_all (fst (ready cj)) s)
          = concat (map (\<lambda>c. map (typed (csv_type c)) (rows c))
                      (filter (\<lambda>c. csv_collection c = station) csvs))
      \<and> length (calendar_docs (execute_all (fst (ready cj)) s))
          = sum_list (map (\<lambda>c. length (rows c))
                        (filter (\<lambda>c. csv_collection c = calendar) csvs)))"
proof (rule conjI)
  from eachSeries_inserts [of cj csvs "[Remove station, Remove calendar]"]
  obtain ins where
    ins: "fst (ready cj) = [Remove station, Remove calendar] @ ins" and
    all: "\<forall>x\<in>set ins. \<exists>c\<in>set csvs. \<exists>rows obj.
               cj (csv_path c) (csv_format c) (csv_delimiter c) = Inr rows \<and> obj \<in> set rows
             \<and> x = Insert (csv_collection c) (typed (csv_type c) obj)"
    unfolding ready_fst by blast
  from all have i: "\<forall>x\<in>set ins. is_insert x" by fastforce
  then have "list_all is_insert ins" by (simp add: list_all_iff)
  with ins execute_ready [OF i, of s]
  show "\<exists>ins. fst (ready cj) = [Remove station, Remove calendar] @ ins
         \<and> list_all is_insert ins
         \<and> calendar_docs (execute_all (fst (ready cj)) s) = inserted calendar ins
         \<and> station_docs (execute_all (fst (ready cj)) s) = inserted station ins"
    by auto
next
  show "(\<forall>c\<in>set csvs. cj (csv_path c) (csv_format c) (csv_delimiter c) = Inr (rows c)) \<longrightarrow>
        ready cj =
          ([Remove station, Remove calendar]
             @ concat (map (\<lambda>c. map (\<lambda>obj. Insert (csv_collection c) (typed (csv_type c) obj))
                                   (rows c)) csvs), 0)
      \<and> calendar_docs (execute_all (fst (ready cj)) s)
          = concat (map (\<lambda>c. map (typed (csv_type c)) (rows c))
                      (filter (\<lambda>c. csv_collection c = calendar) csvs))
      \<and> station_docs (execute_all (fst (ready cj)) s)
          = concat (map (\<lambda>c. map (typed (csv_type c)) (rows c))
                      (filter (\<lambda>c. csv_collection c = station) csvs))
      \<and> length (calendar_docs (execute_all (fst (ready cj)) s))
          = sum_list (map (\<lambda>c. length (rows c))
                        (filter (\<lambda>c. csv_collection c = calendar) csvs))"
  proof
    assume ok: "\<forall>c\<in>set csvs. cj (csv_path c) (csv_format c) (csv_delimiter c) = Inr (rows c)"
    let ?ins = "concat (map (\<lambda>c. map (\<lambda>obj. Insert (csv_collection c) (typed (csv_type c) obj))
                                   (rows c)) csvs)"
    have r: "ready cj = ([Remove station, Remove calendar] @ ?ins, 0)"
      by (simp add: ready_def eachSeries_ok [OF ok])
    have i: "\<forall>x\<in>set ?ins. is_insert x" by auto
    have c: "calendar_docs (execute_all (fst (ready cj)) s)
          = concat (map (\<lambda>c. map (typed (csv_type c)) (rows c))
                      (filter (\<lambda>c. csv_collection c = calendar) csvs))"
      using execute_ready [OF i, of s] by (simp only: r fst_conv inserted_concat)
    have st: "station_docs (execute_all (fst (ready cj)) s)
          = concat (map (\<lambda>c. map (typed (csv_type c)) (rows c))
                      (filter (\<lambda>c. csv_collection c = station) csvs))"
      using execute_ready [OF i, of s] by (simp only: r fst_conv inserted_concat)
    have l: "length (calendar_docs (execute_all (fst (ready cj)) s))
          = sum_list (map (\<lambda>c. length (rows c))
                        (filter (\<lambda>c. csv_collection c = calendar) csvs))"
      by (simp only: c length_concat_rows)
    from r c st l show "ready cj =
          ([Remove station, Remove calendar]
             @ concat (map (\<lambda>c. map (\<lambda>obj. Insert (csv_collection c) (typed (csv_type c) obj))
                                   (rows c)) csvs), 0)
      \<and> calendar_docs (execute_all (fst (ready cj)) s)
          = concat (map (\<lambda>c. map (typed (csv_type c)) (rows c))
                      (filter (\<lambda>c. csv_collection c = calendar) csvs))
      \<and> station_docs (execute_all (fst (ready cj)) s)
          = concat (map (\<lambda>c. map (typed (csv_type c)) (rows c))
                      (filter (\<lambda>c. csv_collection c = station) csvs))
      \<and> length (calendar_docs (execute_all (fst (ready cj)) s))
          = sum_list (map (\<lambda>c. length (rows c))
                        (filter (\<lambda>c. csv_collection c = calendar) csvs))"
      by blast
  qed
qed

text \<open>
  The sample converter returns the same row for the paper files of 2014 and 2015: both
  copies are stored, and the document stored before the run is gone.
\<close>

theorem import_clears_then_inserts_witness:
  "calendar_docs (execute_all (fst (ready sample_converter))
       \<lparr>station_docs = [], calendar_docs = [sample_row]\<rparr>)
     = [[(''date'', JString ''2014-01-06''), (''zip'', JNumber 8001), (''type'', JString ''paper'')],
        [(''date'', JString ''2014-01-06''), (''zip'', JNumber 8001), (''type'', JString ''paper'')]]
   \<and> snd (ready sample_converter) = 0"
proof -
  have ok: "\<forall>c\<in>set csvs. sample_converter (csv_path c) (csv_format c) (csv_delimiter c)
              = Inr (sample_rows c)"
    by (simp add: csvs_def sample_rows_def sample_converter_def)
  have rows: "concat (map (\<lambda>c. map (typed (csv_type c)) (sample_rows c))
                      (filter (\<lambda>c. csv_collection c = calendar) csvs))
     = [[(''date'', JString ''2014-01-06''), (''zip'', JNumber 8001), (''type'', JString ''paper'')],
        [(''date'', JString ''2014-01-06''), (''zip'', JNumber 8001), (''type'', JString ''paper'')]]"
    by (simp add: csvs_def sample_rows_def sample_converter_def typed_def sample_row_def)
  from import_clears_then_inserts [where cj = sample_converter and rows = sample_rows
      and s = "\<lparr>station_docs = [], calendar_docs = [sample_row]\<rparr>"] ok
  have "ready sample_converter =
          ([Remove station, Remove calendar]
             @ concat (map (\<lambda>c. map (\<lambda>obj. Insert (csv_collection c) (typed (csv_type c) obj))
                                   (sample_rows c)) csvs), 0)
      \<and> calendar_docs (execute_all (fst (ready sample_converter))
            \<lparr>station_docs = [], calendar_docs = [sample_row]\<rparr>)
          = concat (map (\<lambda>c. map (typed (csv_type c)) (sample_rows c))
                      (filter (\<lambda>c. csv_collection c = calendar) csvs))"
    by blast
  then have a: "ready sample_converter =
          ([Remove station, Remove calendar]
             @ concat (map (\<lambda>c. map (\<lambda>obj. Insert (csv_collection c) (typed (csv_type c) obj))
                                   (sample_rows c)) csvs), 0)"
    and c: "calendar_docs (execute_all (fst (ready sample_converter))
            \<lparr>station_docs = [], calendar_docs = [sample_row]\<rparr>)
          = concat (map (\<lambda>c. map (typed (csv_type c)) (sample_rows c))
                      (filter (\<lambda>c. csv_collection c = calendar) csvs))"
    by blast+
  have r: "snd (ready sample_converter) = 0"
    by (simp only: a snd_conv)
  from c rows r show ?thesis by (simp only: simp_thms)
qed

text \<open>
  C10. Every document the import job inserts into the calendar collection has a
  \<open>type\<close> field with one of the eight calendar types; every document it inserts
  into the station collection is a row of the station file as the converter returned it,
  the job sets no \<open>type\<close> on it.
\<close>

theorem inserted_document_types:
  "(Insert calendar d \<in> set (fst (ready cj)) \<longrightarrow>
      (\<exists>t. t \<in> set [''organic'', ''cargotram'', ''etram'', ''cardboard'', ''paper'', ''waste'',
                     ''special'', ''textile'']
          \<and> map_of d ''type'' = Some (JString t)))
   \<and> (Insert station d \<in> set (fst (ready cj)) \<longrightarrow>
      (\<exists>rows. cj ''./csv/Entsorgung_Sammelstellen.csv'' stationEntry '','' = Inr rows
             \<and> d \<in> set rows))"
proof -
  from eachSeries_inserts [of cj csvs "[Remove station, Remove calendar]"]
  obtain ins where
    ins: "fst (ready cj) = [Remove station, Remove calendar] @ ins" and
    all: "\<forall>x\<in>set ins. \<exists>c\<in>set csvs. \<exists>rows obj.
               cj (csv_path c) (csv_format c) (csv_delimiter c) = Inr rows \<and> obj \<in> set rows
             \<and> x = Insert (csv_collection c) (typed (csv_type c) obj)"
    unfolding ready_fst by blast
  have cal: "\<exists>t. t \<in> set [''organic'', ''cargotram'', ''etram'', ''cardboard'', ''paper'', ''waste'',
                     ''special'', ''textile'']
          \<and> map_of d ''type'' = Some (JString t)"
    if "Insert calendar d \<in> set (fst (ready cj))"
  proof -
    from that ins have "Insert calendar d \<in> set ins" by simp
    with all obtain c obj where c: "c \<in> set csvs" "csv_collection c = calendar"
      and d: "d = typed (csv_type c) obj"
      by fastforce
    from c csvs_calendar have t: "csv_type c \<noteq> ''stations''"
      "csv_type c \<in> set [''organic'', ''cargotram'', ''etram'', ''cardboard'', ''paper'',
                        ''waste'', ''special'', ''textile'']"
      by blast+
    have "map_of d ''type'' = Some (JString (csv_type c))"
      using t(1) by (simp add: d typed_def update_conv')
    with t(2) show ?thesis by blast
  qed
  have sta: "\<exists>rows. cj ''./csv/Entsorgung_Sammelstellen.csv'' stationEntry '','' = Inr rows
             \<and> d \<in> set rows"
    if "Insert station d \<in> set (fst (ready cj))"
  proof -
    from that ins have "Insert station d \<in> set ins" by simp
    with all obtain c rows obj where c: "c \<in> set csvs" "csv_collection c = station"
      and r: "cj (csv_path c) (csv_format c) (csv_delimiter c) = Inr rows" "obj \<in> set rows"
      and d: "d = typed (csv_type c) obj"
      by fastforce
    from c csvs_station have t: "csv_type c = ''stations''"
      "csv_path c = ''./csv/Entsorgung_Sammelstellen.csv''"
      "csv_format c = stationEntry" "csv_delimiter c = '',''"
      by blast+
    have "d = obj" by (simp add: d t(1) typed_def)
    with r t show ?thesis by auto
  qed
  from cal sta show ?thesis by blast
qed

theorem inserted_document_types_witness:
  "Insert calendar [(''date'', JString ''2014-01-06''), (''zip'', JNumber 8001),
                    (''type'', JString ''paper'')] \<in> set (fst (ready sample_converter))
   \<and> (\<exists>t. t \<in> set [''organic'', ''cargotram'', ''etram'', ''cardboard'', ''paper'', ''waste'',
                     ''special'', ''textile'']
          \<and> map_of [(''date'', JString ''2014-01-06''), (''zip'', JNumber 8001),
                    (''type'', JString ''paper'')] ''type'' = Some (JString t))
   \<and> Insert station [(''name'', JString ''Hardau''), (''zip'', JNumber 8004)]
        \<in> set (fst (ready sample_converter))
   \<and> (\<exists>rows. sample_converter ''./csv/Entsorgung_Sammelstellen.csv'' stationEntry '','' = Inr rows
             \<and> [(''name'', JString ''Hardau''), (''zip'', JNumber 8004)] \<in> set rows)"
proof -
  have c: "Insert calendar [(''date'', JString ''2014-01-06''), (''zip'', JNumber 8001),
                    (''type'', JString ''paper'')] \<in> set (fst (ready sample_converter))"
    by (simp add: ready_sample)
  have s: "Insert station [(''name'', JString ''Hardau''), (''zip'', JNumber 8004)]
        \<in> set (fst (ready sample_converter))"
    by (simp add: ready_sample)
  from inserted_document_types [where cj = sample_converter
      and d = "[(''date'', JString ''2014-01-06''), (''zip'', JNumber 8001),
                (''type'', JString ''paper'')]"] c
    inserted_document_types [where cj = sample_converter
      and d = "[(''name'', JString ''Hardau''), (''zip'', JNumber 8004)]"] s
  show ?thesis by blast
qed

end
